theory Spec2Isabelle
  imports Complex_Main
begin

section \<open>The Forge client: data model\<close>

text \<open>
  The embedding follows \<^verbatim>\<open>forge_sdk/client.py\<close>. Everything the client does to the
  outside (reading the process environment, reading the clock, sleeping, HTTP calls) is
  made explicit: the environment, the clock and the log of requests sent live in a
  \<open>world\<close> record that is passed through, and the behaviour of the network is a script,
  the list of the outcomes of the HTTP calls still to come, one entry consumed per call.
  Python exceptions are values of the type \<open>error\<close>.
\<close>

subsection \<open>JSON values and Python exceptions\<close>

text \<open>
  What \<^verbatim>\<open>response.json()\<close> returns: Python's \<^verbatim>\<open>None\<close>, \<^verbatim>\<open>bool\<close>, numbers,
  \<^verbatim>\<open>str\<close>, \<^verbatim>\<open>list\<close> and \<^verbatim>\<open>dict\<close>. A dict is an association list read with
  \<open>map_of\<close>. The client never inspects a number, so numbers are integers here.
\<close>

datatype json =
    JNull
  | JBool bool
  | JNum int
  | JStr string
  | JArr "json list"
  | JObj "(string \<times> json) list"

text \<open>
  The three exception classes of the library carry their message; the other
  constructors are the built-in exceptions that the code can let escape.
\<close>

datatype error =
    ForgeError string
  | ForgeTimeoutError string
  | ForgeAuthError string
  | ValueError
  | KeyError
  | TypeError
  | AttributeError
  | OverflowError
  | UnicodeEncodeError


text \<open>\<^verbatim>\<open>d[key]\<close> on a decoded JSON value, with a string key.\<close>

fun subscript :: "json \<Rightarrow> string \<Rightarrow> error + json" where
  "subscript (JObj kvs) k = (case map_of kvs k of None \<Rightarrow> Inl KeyError | Some v \<Rightarrow> Inr v)"
| "subscript j k = Inl TypeError"

text \<open>\<^verbatim>\<open>d.get(key, default)\<close>: only a dict has the method.\<close>

fun dict_get :: "json \<Rightarrow> string \<Rightarrow> json \<Rightarrow> error + json" where
  "dict_get (JObj kvs) k dflt = (case map_of kvs k of None \<Rightarrow> Inr dflt | Some v \<Rightarrow> Inr v)"
| "dict_get j k dflt = Inl AttributeError"

text \<open>\<^verbatim>\<open>result.get("metadata", {}).get("status", "unknown")\<close>\<close>

definition get_status :: "json \<Rightarrow> error + json" where
  "get_status res =
     (case dict_get res ''metadata'' (JObj []) of
        Inl e \<Rightarrow> Inl e
      | Inr m \<Rightarrow> dict_get m ''status'' (JStr ''unknown''))"

text \<open>\<^verbatim>\<open>status in ["succeeded", "failed", "cancelled"]\<close>\<close>

definition is_terminal :: "json \<Rightarrow> bool" where
  "is_terminal st = (st = JStr ''succeeded'' \<or> st = JStr ''failed'' \<or> st = JStr ''cancelled'')"

subsection \<open>Decimal rendering of integers in f-strings\<close>

function str_nat :: "nat \<Rightarrow> string" where
  "str_nat n = (if n < 10 then [char_of (48 + n)]
                else str_nat (n div 10) @ [char_of (48 + n mod 10)])"
  by pat_completeness auto
termination
  by (relation "measure id") auto

declare str_nat.simps [simp del]

definition str_int :: "int \<Rightarrow> string" where
  "str_int i = (if i < 0 then CHR ''-'' # str_nat (nat (- i)) else str_nat (nat i))"

text \<open>
  The interpreter refuses to render an integer of more than 4300 decimal digits (the
  default of \<^verbatim>\<open>sys.set_int_max_str_digits\<close>): \<^verbatim>\<open>f"{n}"\<close> raises \<^verbatim>\<open>ValueError\<close> then.
\<close>

definition int_max_str_digits :: nat where
  "int_max_str_digits = 4300"

definition digits :: "int \<Rightarrow> nat" where
  "digits i = length (str_nat (nat \<bar>i\<bar>))"

definition fstring_int :: "int \<Rightarrow> error + string" where
  "fstring_int i = (if int_max_str_digits < digits i then Inl ValueError else Inr (str_int i))"

text \<open>
  \<^verbatim>\<open>raise C(f"...")\<close>: the message is built first, and when building it raises, that
  exception is the one that leaves.
\<close>

fun raise_with :: "(string \<Rightarrow> error) \<Rightarrow> error + string \<Rightarrow> error" where
  "raise_with C (Inl e) = e"
| "raise_with C (Inr m) = C m"

text \<open>
  An f-string that holds a JSON value renders it with \<^verbatim>\<open>str\<close>, and so every integer
  inside it: \<open>renders\<close> tells whether that goes through, \<^verbatim>\<open>ValueError\<close> is raised when it
  does not.
\<close>

fun renders :: "json \<Rightarrow> bool" where
  "renders (JNum n) = (digits n \<le> int_max_str_digits)"
| "renders (JArr xs) = (\<forall>x\<in>set xs. renders x)"
| "renders (JObj kvs) = (\<forall>kv\<in>set kvs. renders (snd kv))"
| "renders j = True"

subsection \<open>Reasoning speed\<close>

datatype ReasoningSpeed = FAST | MEDIUM | SLOW

fun speed_value :: "ReasoningSpeed \<Rightarrow> string" where
  "speed_value FAST = ''fast''"
| "speed_value MEDIUM = ''medium''"
| "speed_value SLOW = ''slow''"

text \<open>The argument is a member of the enumeration or any string.\<close>

datatype speed_arg = Member ReasoningSpeed | Str string

definition lower_char :: "char \<Rightarrow> char" where
  "lower_char c = (if (65::nat) \<le> of_char c \<and> (of_char c :: nat) \<le> 90
                   then char_of ((of_char c :: nat) + 32) else c)"

definition lower :: "string \<Rightarrow> string" where
  "lower s = map lower_char s"

text \<open>\<^verbatim>\<open>ReasoningSpeed(v)\<close>: look a member up by value, \<^verbatim>\<open>ValueError\<close> when there is none.\<close>

definition ReasoningSpeed_of :: "string \<Rightarrow> error + ReasoningSpeed" where
  "ReasoningSpeed_of v =
     (if v = ''fast'' then Inr FAST
      else if v = ''medium'' then Inr MEDIUM
      else if v = ''slow'' then Inr SLOW
      else Inl ValueError)"

text \<open>
  The first statement of \<^verbatim>\<open>complete\<close>. The enumeration derives from \<^verbatim>\<open>str\<close>, so a member
  passes the \<^verbatim>\<open>isinstance\<close> test too and is looked up by its own (lower-case) value.
\<close>

fun normalise_speed :: "speed_arg \<Rightarrow> error + ReasoningSpeed" where
  "normalise_speed (Member m) = ReasoningSpeed_of (lower (speed_value m))"
| "normalise_speed (Str s) = ReasoningSpeed_of (lower s)"

subsection \<open>Responses, the client object, the world\<close>

text \<open>
  The dataclass does not enforce its annotations: \<open>task_id\<close> and \<open>status\<close> hold
  whatever JSON value the server sent.
\<close>

record ForgeResponse =
  task_id :: json
  status :: json
  result :: json
  completion_time :: real

definition succeeded :: "ForgeResponse \<Rightarrow> bool" where
  "succeeded r = (status r = JStr ''succeeded'')"

definition failed :: "ForgeResponse \<Rightarrow> bool" where
  "failed r = (status r = JStr ''failed'' \<or> status r = JStr ''cancelled'')"

record ForgeClient =
  api_key :: string
  base_url :: string
  headers :: "(string \<times> string) list"

text \<open>
  A request as it is handed to the HTTP library: URL, headers, JSON body and the
  network timeout. The poll URL is the completion URL, a slash and the task id as
  the f-string renders it; the log keeps the two parts.
\<close>

datatype request =
    POST string "(string \<times> string) list" json int
  | GET string json "(string \<times> string) list" int


text \<open>
  The outcome of one HTTP call, that is of \<^verbatim>\<open>requests.post\<close> or \<^verbatim>\<open>requests.get\<close>,
  \<^verbatim>\<open>raise_for_status\<close> and \<^verbatim>\<open>.json()\<close> together:
  \<^item> \<open>RequestFailed\<close> when one of them raised a \<^verbatim>\<open>RequestException\<close> (with its text);
  \<^item> \<open>Raised\<close> when one of them raised an exception of another class, which no handler
    of the client catches: \<^verbatim>\<open>UnicodeEncodeError\<close> for a header value outside Latin-1,
    \<^verbatim>\<open>ValueError\<close> when the body holds an integer of more than 4300 digits;
  \<^item> \<open>Responded\<close> with the decoded body otherwise.
  An event of the script pairs the time the call takes with its outcome.
\<close>

datatype http_result = RequestFailed string | Raised error | Responded json

type_synonym event = "real \<times> http_result"

record world =
  environ :: "(string \<times> string) list"
  clock :: real
  sent :: "request list"

text \<open>
  \<^verbatim>\<open>time.sleep(d)\<close> with an integer argument: a negative one raises \<^verbatim>\<open>ValueError\<close>, and
  one whose nanoseconds do not fit 64 signed bits, that is one above \<open>sleep_max\<close>, raises
  \<^verbatim>\<open>OverflowError\<close>.
\<close>

definition sleep_max :: int where
  "sleep_max = 9223372036"

definition sleep :: "int \<Rightarrow> world \<Rightarrow> error + world" where
  "sleep d w =
     (if d < 0 then Inl ValueError
      else if sleep_max < d then Inl OverflowError
      else Inr (w\<lparr>clock := clock w + of_int d\<rparr>))"

text \<open>One HTTP call: the request is logged and the clock advances by the call's duration.\<close>

definition http_call :: "request \<Rightarrow> real \<Rightarrow> world \<Rightarrow> world" where
  "http_call rq d w = w\<lparr>clock := clock w + d, sent := sent w @ [rq]\<rparr>"

section \<open>Construction\<close>

text \<open>Truthiness of an \<^verbatim>\<open>Optional[str]\<close>, and Python's \<^verbatim>\<open>a or b\<close> on two of them.\<close>

fun truthy :: "string option \<Rightarrow> bool" where
  "truthy None = False"
| "truthy (Some s) = (s \<noteq> [])"

definition py_or :: "string option \<Rightarrow> string option \<Rightarrow> string option" where
  "py_or a b = (if truthy a then a else b)"

definition getenv :: "world \<Rightarrow> string \<Rightarrow> string option" where
  "getenv w k = map_of (environ w) k"

definition rstrip :: "char \<Rightarrow> string \<Rightarrow> string" where
  "rstrip c s = rev (dropWhile (\<lambda>x. x = c) (rev s))"

definition no_key_message :: string where
  "no_key_message =
     ''No API key provided. Set FORGE_API_KEY environment variable or pass key to constructor''"

text \<open>\<^verbatim>\<open>ForgeClient.__init__\<close>; the default of \<open>url\<close> is \<open>default_base_url\<close>.\<close>

definition default_base_url :: string where
  "default_base_url = ''https://forge-api.nousresearch.com/v1''"

definition ForgeClient_init :: "string option \<Rightarrow> string \<Rightarrow> world \<Rightarrow> (error + ForgeClient) \<times> world" where
  "ForgeClient_init key url w =
     (case py_or key (getenv w ''FORGE_API_KEY'') of
        None \<Rightarrow> (Inl (ForgeAuthError no_key_message), w)
      | Some k \<Rightarrow>
          if k = [] then (Inl (ForgeAuthError no_key_message), w)
          else (Inr \<lparr>api_key = k,
                     base_url = rstrip CHR ''/'' url,
                     headers = [(''Authorization'', ''Bearer '' @ k),
                                (''Content-Type'', ''application/json'')]\<rparr>, w))"

section \<open>The completion call\<close>

text \<open>
  The result of a call: \<open>None\<close> when the script of network outcomes ran out while the
  code was about to make another HTTP call, \<open>Some (Inl e)\<close> when \<open>e\<close> was raised,
  \<open>Some (Inr r)\<close> when \<open>r\<close> was returned. The client object is returned next to it, as the
  method could assign to its fields, and so is the world.
\<close>

type_synonym outcome = "(error + ForgeResponse) option"

text \<open>The two f-strings of the loop; each renders an integer argument.\<close>

definition timeout_message :: "int \<Rightarrow> error + string" where
  "timeout_message timeout =
     (case fstring_int timeout of
        Inl e \<Rightarrow> Inl e
      | Inr n \<Rightarrow> Inr (''Completion timed out after '' @ n @ '' seconds''))"

definition retries_message :: "int \<Rightarrow> error + string" where
  "retries_message max_retries =
     (case fstring_int max_retries of
        Inl e \<Rightarrow> Inl e
      | Inr n \<Rightarrow> Inr (''Polling failed after '' @ n @ '' retries''))"

text \<open>
  The \<^verbatim>\<open>while\<close> loop of \<^verbatim>\<open>complete\<close> with what follows it, by recursion on the script. The
  clock is read at the loop test and after a poll has answered; it moves only during HTTP
  calls and sleeps. Of the log lines only the f-string is modelled, which is evaluated
  whatever the log level: the one of the loop renders the status.
\<close>

fun poll_loop ::
  "ForgeClient \<Rightarrow> int \<Rightarrow> int \<Rightarrow> int \<Rightarrow> string \<Rightarrow> json \<Rightarrow> real \<Rightarrow> int \<Rightarrow> event list \<Rightarrow> world
     \<Rightarrow> outcome \<times> ForgeClient \<times> world" where
  "poll_loop self timeout poll_interval max_retries completion_url tid start_time retries [] w =
     (if clock w - start_time < of_int timeout then (None, self, w)
      else (Some (Inl (raise_with ForgeTimeoutError (timeout_message timeout))), self, w))"
| "poll_loop self timeout poll_interval max_retries completion_url tid start_time retries (ev # evs) w =
     (if clock w - start_time < of_int timeout then
        (let w1 = http_call (GET completion_url tid (headers self) 10) (fst ev) w in
         case snd ev of
           RequestFailed msg \<Rightarrow>
             (if retries + 1 \<ge> max_retries
              then (Some (Inl (raise_with ForgeError (retries_message max_retries))), self, w1)
              else (case sleep 1 w1 of
                      Inl e \<Rightarrow> (Some (Inl e), self, w1)
                    | Inr w2 \<Rightarrow>
                        poll_loop self timeout poll_interval max_retries completion_url tid
                          start_time (retries + 1) evs w2))
         | Raised e \<Rightarrow> (Some (Inl e), self, w1)
         | Responded res \<Rightarrow>
             (case get_status res of
                Inl e \<Rightarrow> (Some (Inl e), self, w1)
              | Inr st \<Rightarrow>
                  (if is_terminal st
                   then (Some (Inr \<lparr>task_id = tid, status = st, result = res,
                                    completion_time = clock w1 - start_time\<rparr>), self, w1)
                   else if \<not> renders st then (Some (Inl ValueError), self, w1)
                   else (case sleep poll_interval w1 of
                           Inl e \<Rightarrow> (Some (Inl e), self, w1)
                         | Inr w2 \<Rightarrow>
                             poll_loop self timeout poll_interval max_retries completion_url tid
                               start_time 0 evs w2))))
      else (Some (Inl (raise_with ForgeTimeoutError (timeout_message timeout))), self, w))"

text \<open>
  \<^verbatim>\<open>ForgeClient.complete\<close>. The defaults of the keyword arguments are
  \<open>Member MEDIUM\<close>, \<open>False\<close>, 300, 5 and 5. The f-string of the poll URL renders the task
  id.
\<close>

definition ForgeClient_complete ::
  "ForgeClient \<Rightarrow> string \<Rightarrow> speed_arg \<Rightarrow> bool \<Rightarrow> int \<Rightarrow> int \<Rightarrow> int \<Rightarrow> event list \<Rightarrow> world
     \<Rightarrow> outcome \<times> ForgeClient \<times> world" where
  "ForgeClient_complete self prompt reasoning_speed track timeout poll_interval max_retries evs w =
     (case normalise_speed reasoning_speed of
        Inl e \<Rightarrow> (Some (Inl e), self, w)
      | Inr speed \<Rightarrow>
          (let completion_url = base_url self @ ''/asyncplanner/completions'';
               payload = JObj [(''prompt'', JStr prompt),
                               (''reasoning_speed'', JStr (speed_value speed)),
                               (''track'', JBool track)]
           in case evs of
                [] \<Rightarrow> (None, self, w)
              | ev # rest \<Rightarrow>
                  (let w1 = http_call (POST completion_url (headers self) payload 10) (fst ev) w in
                   case snd ev of
                     RequestFailed msg \<Rightarrow>
                       (Some (Inl (ForgeError (''Failed to start completion: '' @ msg))), self, w1)
                   | Raised e \<Rightarrow> (Some (Inl e), self, w1)
                   | Responded body \<Rightarrow>
                       (case subscript body ''task_id'' of
                          Inl e \<Rightarrow> (Some (Inl e), self, w1)
                        | Inr tid \<Rightarrow>
                            if \<not> renders tid then (Some (Inl ValueError), self, w1)
                            else poll_loop self timeout poll_interval max_retries completion_url tid
                                   (clock w1) 0 rest w1))))"

section \<open>Example values\<close>

definition demo_client :: ForgeClient where
  "demo_client = \<lparr>api_key = ''k'', base_url = ''https://h/v1'',
     headers = [(''Authorization'', ''Bearer k''), (''Content-Type'', ''application/json'')]\<rparr>"

definition fresh_world :: world where
  "fresh_world = \<lparr>environ = [], clock = 0, sent = []\<rparr>"

definition succeeded_payload :: json where
  "succeeded_payload =
     JObj [(''metadata'', JObj [(''status'', JStr ''succeeded'')]), (''output'', JStr ''hi'')]"


definition poll_request :: "ForgeClient \<Rightarrow> json \<Rightarrow> request" where
  "poll_request self tid = GET (base_url self @ ''/asyncplanner/completions'') tid (headers self) 10"

section \<open>Basic facts about the model\<close>

lemma http_call_simps [simp]:
  "clock (http_call rq d w) = clock w + d"
  "sent (http_call rq d w) = sent w @ [rq]"
  "environ (http_call rq d w) = environ w"
  by (simp_all add: http_call_def)

lemma normalise_speed_Member: "normalise_speed (Member m) = Inr m"
  by (cases m) (simp_all add: ReasoningSpeed_of_def lower_def lower_char_def)

lemma normalise_speed_raises: "normalise_speed sp = Inl e \<Longrightarrow> e = ValueError"
  by (cases sp) (auto simp: ReasoningSpeed_of_def split: if_splits)



lemma raise_with_timeout_cases:
  "raise_with ForgeTimeoutError (timeout_message timeout) = ValueError
   \<or> raise_with ForgeTimeoutError (timeout_message timeout) =
       ForgeTimeoutError (''Completion timed out after '' @ str_int timeout @ '' seconds'')"
  by (simp add: timeout_message_def fstring_int_def)

lemma raise_with_retries_cases:
  "raise_with ForgeError (retries_message max_retries) = ValueError
   \<or> raise_with ForgeError (retries_message max_retries) =
       ForgeError (''Polling failed after '' @ str_int max_retries @ '' retries'')"
  by (simp add: retries_message_def fstring_int_def)

lemma sleep_in_range:
  "0 \<le> d \<Longrightarrow> d \<le> sleep_max \<Longrightarrow> sleep d w = Inr (w\<lparr>clock := clock w + of_int d\<rparr>)"
  by (simp add: sleep_def)

lemma sleep_one: "sleep 1 w = Inr (w\<lparr>clock := clock w + 1\<rparr>)"
  by (simp add: sleep_def sleep_max_def)


lemma poll_loop_terminal:
  "clock w - start_time < of_int timeout \<Longrightarrow> get_status res = Inr st \<Longrightarrow> is_terminal st \<Longrightarrow>
   poll_loop self timeout poll_interval max_retries url tid start_time retries ((d, Responded res) # evs) w =
     (Some (Inr \<lparr>task_id = tid, status = st, result = res,
                  completion_time = clock w + d - start_time\<rparr>), self,
      http_call (GET url tid (headers self) 10) d w)"
  by (simp add: Let_def)

lemma poll_loop_nonterminal:
  "clock w - start_time < of_int timeout \<Longrightarrow> get_status res = Inr st \<Longrightarrow> \<not> is_terminal st \<Longrightarrow>
   renders st \<Longrightarrow> 0 \<le> poll_interval \<Longrightarrow> poll_interval \<le> sleep_max \<Longrightarrow>
   poll_loop self timeout poll_interval max_retries url tid start_time retries ((d, Responded res) # evs) w =
   poll_loop self timeout poll_interval max_retries url tid start_time 0 evs
     ((http_call (GET url tid (headers self) 10) d w)\<lparr>clock := clock w + d + of_int poll_interval\<rparr>)"
  by (simp add: Let_def sleep_in_range)



lemma poll_loop_self:
  "fst (snd (poll_loop self timeout poll_interval max_retries url tid start_time retries evs w)) = self"
  by (induction evs arbitrary: retries w)
     (auto simp: Let_def split: http_result.splits sum.splits)

lemma complete_submitted:
  "normalise_speed sp = Inr speed \<Longrightarrow> subscript body ''task_id'' = Inr tid \<Longrightarrow> renders tid \<Longrightarrow>
   ForgeClient_complete self prompt sp track timeout poll_interval max_retries ((d0, Responded body) # polls) w =
   poll_loop self timeout poll_interval max_retries (base_url self @ ''/asyncplanner/completions'') tid
     (clock w + d0) 0 polls
     (http_call (POST (base_url self @ ''/asyncplanner/completions'') (headers self)
        (JObj [(''prompt'', JStr prompt), (''reasoning_speed'', JStr (speed_value speed)),
               (''track'', JBool track)]) 10) d0 w)"
  by (simp add: ForgeClient_complete_def Let_def)

section \<open>The claims\<close>

text \<open>
  Claim C1. A poll that is made (the loop test passed) and answers with a payload whose
  \<^verbatim>\<open>metadata.status\<close> is \<^verbatim>\<open>"succeeded"\<close>, \<^verbatim>\<open>"failed"\<close> or \<^verbatim>\<open>"cancelled"\<close> ends the call: the
  loop returns, without raising and without looking at the rest of the script, a response
  whose status is that status and whose result is the whole payload, and \<open>succeeded\<close>
  holds of it exactly when the status is \<^verbatim>\<open>"succeeded"\<close>. Only the one poll request is added
  to the log.
\<close>

theorem terminal_status_is_returned:
  assumes "clock w - start_time < of_int timeout"
    and "map_of kvs ''metadata'' = Some (JObj ms)"
    and "map_of ms ''status'' = Some (JStr s)"
    and "s = ''succeeded'' \<or> s = ''failed'' \<or> s = ''cancelled''"
  shows "poll_loop self timeout poll_interval max_retries url tid start_time retries
           ((d, Responded (JObj kvs)) # evs) w =
         (Some (Inr \<lparr>task_id = tid, status = JStr s, result = JObj kvs,
                      completion_time = clock w + d - start_time\<rparr>), self,
          http_call (GET url tid (headers self) 10) d w)
       \<and> (succeeded \<lparr>task_id = tid, status = JStr s, result = JObj kvs,
                      completion_time = clock w + d - start_time\<rparr> \<longleftrightarrow> s = ''succeeded'')"
proof -
  have st: "get_status (JObj kvs) = Inr (JStr s)"
    using assms(2,3) by (simp add: get_status_def)
  have trm: "is_terminal (JStr s)"
    using assms(4) by (auto simp: is_terminal_def)
  show ?thesis
    using poll_loop_terminal [OF assms(1) st trm] by (simp add: succeeded_def)
qed

text \<open>The example of the specification: the first poll answers \<^verbatim>\<open>"succeeded"\<close>.\<close>

theorem terminal_status_is_returned_witness:
  "poll_loop demo_client 300 5 5 ''https://h/v1/asyncplanner/completions'' (JStr ''t'') 2 0
     [(3, Responded (JObj [(''metadata'', JObj [(''status'', JStr ''succeeded'')]),
                           (''output'', JStr ''hi'')]))]
     (fresh_world\<lparr>clock := 2\<rparr>) =
   (Some (Inr \<lparr>task_id = JStr ''t'', status = JStr ''succeeded'',
                result = JObj [(''metadata'', JObj [(''status'', JStr ''succeeded'')]),
                               (''output'', JStr ''hi'')],
                completion_time = 3\<rparr>), demo_client,
    http_call (GET ''https://h/v1/asyncplanner/completions'' (JStr ''t'') (headers demo_client) 10) 3
      (fresh_world\<lparr>clock := 2\<rparr>))
   \<and> succeeded \<lparr>task_id = JStr ''t'', status = JStr ''succeeded'',
                result = JObj [(''metadata'', JObj [(''status'', JStr ''succeeded'')]),
                               (''output'', JStr ''hi'')],
                completion_time = 3\<rparr>"
  using terminal_status_is_returned
    [where w = "fresh_world\<lparr>clock := 2\<rparr>" and start_time = 2 and timeout = 300
       and kvs = "[(''metadata'', JObj [(''status'', JStr ''succeeded'')]), (''output'', JStr ''hi'')]"
       and ms = "[(''status'', JStr ''succeeded'')]" and s = "''succeeded''"
       and self = demo_client and poll_interval = 5 and max_retries = 5
       and url = "''https://h/v1/asyncplanner/completions''" and tid = "JStr ''t''"
       and retries = 0 and d = 3 and evs = "[]"]
  by (simp add: fresh_world_def)

text \<open>
  Claim C7. Without a key argument and without \<^verbatim>\<open>FORGE_API_KEY\<close> in the environment the
  constructor raises the authentication error; with a non-empty key from either source
  it returns a client. In both cases the world is the one it started from: nothing is
  sent.
\<close>

theorem construction_needs_credential:
  "(key = None \<and> getenv w ''FORGE_API_KEY'' = None \<longrightarrow>
      ForgeClient_init key url w = (Inl (ForgeAuthError no_key_message), w))
   \<and> (truthy key \<or> truthy (getenv w ''FORGE_API_KEY'') \<longrightarrow>
        (\<exists>c. ForgeClient_init key url w = (Inr c, w)))
   \<and> sent (snd (ForgeClient_init key url w)) = sent w"
  by (cases key; cases "getenv w ''FORGE_API_KEY''")
     (auto simp: ForgeClient_init_def py_or_def)

theorem construction_needs_credential_witness:
  "ForgeClient_init None default_base_url fresh_world = (Inl (ForgeAuthError no_key_message), fresh_world)
   \<and> fst (ForgeClient_init (Some ''k'') ''https://h/v1/'' fresh_world) = Inr demo_client"
  using construction_needs_credential [where key = None and w = fresh_world and url = default_base_url]
  by (simp add: fresh_world_def getenv_def ForgeClient_init_def py_or_def demo_client_def rstrip_def)

text \<open>
  Claim C9. An empty string counts as no credential: the constructor called with the
  empty key behaves as the one called without a key, and when the key argument and the
  environment variable are both missing or empty the authentication error is raised.
\<close>

theorem empty_credential_is_absent:
  "ForgeClient_init (Some []) url w = ForgeClient_init None url w
   \<and> (\<not> truthy key \<and> \<not> truthy (getenv w ''FORGE_API_KEY'') \<longrightarrow>
        ForgeClient_init key url w = (Inl (ForgeAuthError no_key_message), w))"
  by (cases key; cases "getenv w ''FORGE_API_KEY''")
     (auto simp: ForgeClient_init_def py_or_def)

theorem empty_credential_is_absent_witness:
  "ForgeClient_init (Some []) default_base_url fresh_world =
     (Inl (ForgeAuthError no_key_message), fresh_world)
   \<and> ForgeClient_init None default_base_url (fresh_world\<lparr>environ := [(''FORGE_API_KEY'', [])]\<rparr>) =
     (Inl (ForgeAuthError no_key_message), fresh_world\<lparr>environ := [(''FORGE_API_KEY'', [])]\<rparr>)"
proof -
  have a: "\<not> truthy (Some []) \<and> \<not> truthy (getenv fresh_world ''FORGE_API_KEY'')"
    by (simp add: fresh_world_def getenv_def)
  have b: "\<not> truthy None
      \<and> \<not> truthy (getenv (fresh_world\<lparr>environ := [(''FORGE_API_KEY'', [])]\<rparr>) ''FORGE_API_KEY'')"
    by (simp add: fresh_world_def getenv_def)
  show ?thesis
    using a b
      empty_credential_is_absent [where key = "Some []" and w = fresh_world and url = default_base_url]
      empty_credential_is_absent [where key = None and url = default_base_url
        and w = "fresh_world\<lparr>environ := [(''FORGE_API_KEY'', [])]\<rparr>"]
    by blast
qed

text \<open>
  Claim C10. Whatever a call of \<^verbatim>\<open>complete\<close> does (return, raise, or use the script up), the
  client object it hands back is the one it was given: key, base URL and headers are
  untouched.
\<close>

theorem complete_leaves_client_unchanged:
  "fst (snd (ForgeClient_complete self prompt reasoning_speed track timeout poll_interval max_retries evs w)) = self"
  by (auto simp: ForgeClient_complete_def Let_def poll_loop_self
           split: sum.splits list.splits http_result.splits)

lemma poll_loop_completion_time:
  "poll_loop self timeout poll_interval max_retries url tid start_time retries evs w = (Some (Inr r), self', w')
   \<Longrightarrow> completion_time r = clock w' - start_time"
proof (induction evs arbitrary: retries w)
  case Nil
  then show ?case by (simp split: if_splits)
next
  case (Cons ev evs)
  show ?case
  proof (cases "clock w - start_time < of_int timeout")
    case False
    with Cons.prems show ?thesis by simp
  next
    case True
    show ?thesis
    proof (cases "snd ev")
      case (RequestFailed m)
      with True Cons.prems Cons.IH show ?thesis
        by (auto simp: Let_def sleep_one split: if_splits)
    next
      case (Raised e)
      with True Cons.prems show ?thesis
        by (simp add: Let_def)
    next
      case (Responded res)
      with True Cons.prems Cons.IH show ?thesis
        by (auto simp: Let_def sleep_def split: if_splits sum.splits)
    qed
  qed
qed

text \<open>
  Claim C5 says that the completion time is measured from the start of the submission
  request. It is not: the submission below takes 2 time units and the only poll 3, the
  call returns 5 units after it began, and the completion time it reports is 3.
\<close>

theorem completion_time_counterexample:
  "map_option (map_sum id completion_time)
     (fst (ForgeClient_complete demo_client ''p'' (Member MEDIUM) False 300 5 5
        [(2, Responded (JObj [(''task_id'', JStr ''t'')])), (3, Responded succeeded_payload)]
        fresh_world)) = Some (Inr 3)
   \<and> clock (snd (snd (ForgeClient_complete demo_client ''p'' (Member MEDIUM) False 300 5 5
        [(2, Responded (JObj [(''task_id'', JStr ''t'')])), (3, Responded succeeded_payload)]
        fresh_world))) - clock fresh_world = 5"
  by (simp add: complete_submitted [OF normalise_speed_Member] succeeded_payload_def
        fresh_world_def get_status_def is_terminal_def Let_def)

text \<open>
  Claim C5, amended. The completion time of a returned response is the time from the
  start of the poll loop, that is from the moment the submission request has completed,
  to the arrival of the terminal poll response; the duration of the submission request is
  not part of it.
\<close>

theorem completion_time_measured_from_loop_start:
  assumes "ForgeClient_complete self prompt reasoning_speed track timeout poll_interval max_retries
             (ev # polls) w = (Some (Inr r), self', w')"
  shows "completion_time r = clock w' - (clock w + fst ev)"
  using assms
  by (auto simp: ForgeClient_complete_def Let_def
           split: sum.splits http_result.splits if_splits dest: poll_loop_completion_time)

text \<open>The run of the counterexample, where the window opens 2 time units in.\<close>

theorem completion_time_measured_from_loop_start_witness:
  "ForgeClient_complete demo_client ''p'' (Member MEDIUM) False 300 5 5
     [(2, Responded (JObj [(''task_id'', JStr ''t'')])), (3, Responded succeeded_payload)] fresh_world =
   (Some (Inr \<lparr>task_id = JStr ''t'', status = JStr ''succeeded'', result = succeeded_payload,
                completion_time = 3\<rparr>), demo_client,
    \<lparr>environ = [], clock = 5,
       sent = [POST ''https://h/v1/asyncplanner/completions'' (headers demo_client)
                 (JObj [(''prompt'', JStr ''p''), (''reasoning_speed'', JStr ''medium''),
                        (''track'', JBool False)]) 10,
               poll_request demo_client (JStr ''t'')]\<rparr>)
   \<and> completion_time \<lparr>task_id = JStr ''t'', status = JStr ''succeeded'', result = succeeded_payload,
                completion_time = 3\<rparr> = 5 - (clock fresh_world + 2)"
proof -
  have run: "ForgeClient_complete demo_client ''p'' (Member MEDIUM) False 300 5 5
     [(2, Responded (JObj [(''task_id'', JStr ''t'')])), (3, Responded succeeded_payload)] fresh_world =
   (Some (Inr \<lparr>task_id = JStr ''t'', status = JStr ''succeeded'', result = succeeded_payload,
                completion_time = 3\<rparr>), demo_client,
    \<lparr>environ = [], clock = 5,
       sent = [POST ''https://h/v1/asyncplanner/completions'' (headers demo_client)
                 (JObj [(''prompt'', JStr ''p''), (''reasoning_speed'', JStr ''medium''),
                        (''track'', JBool False)]) 10,
               poll_request demo_client (JStr ''t'')]\<rparr>)"
    by (simp add: complete_submitted [OF normalise_speed_Member] succeeded_payload_def
          fresh_world_def get_status_def is_terminal_def Let_def http_call_def demo_client_def
          poll_request_def)
  show ?thesis
    using run completion_time_measured_from_loop_start [OF run] by simp
qed























text \<open>
  Claim C8 says that a poll answer without \<^verbatim>\<open>metadata.status\<close> counts as status
  \<^verbatim>\<open>"unknown"\<close> and that polling goes on. When \<^verbatim>\<open>metadata\<close> is present but is not an object
  (here it is \<^verbatim>\<open>null\<close>), the second \<^verbatim>\<open>.get\<close> raises \<^verbatim>\<open>AttributeError\<close>, which the loop does not
  catch: the call ends with that exception instead of polling on to the answer that
  follows.
\<close>

theorem null_metadata_raises_AttributeError:
  "fst (ForgeClient_complete demo_client ''p'' (Member MEDIUM) False 300 5 5
          [(0, Responded (JObj [(''task_id'', JStr ''t'')])),
           (0, Responded (JObj [(''metadata'', JNull)])),
           (0, Responded succeeded_payload)]
          fresh_world) = Some (Inl AttributeError)"
  by (simp add: complete_submitted [OF normalise_speed_Member] fresh_world_def get_status_def Let_def)

text \<open>
  Where the field is absent because a key is missing (no \<^verbatim>\<open>metadata\<close>, or a \<^verbatim>\<open>metadata\<close>
  object without \<^verbatim>\<open>status\<close>), the status is \<^verbatim>\<open>"unknown"\<close>, it is not terminal, and the
  loop sleeps for the poll interval and goes round again.
\<close>

lemma absent_status_keeps_polling:
  assumes "clock w - start_time < of_int timeout"
    and "0 \<le> poll_interval" and "poll_interval \<le> sleep_max"
    and "map_of kvs ''metadata'' = None
         \<or> (\<exists>ms. map_of kvs ''metadata'' = Some (JObj ms) \<and> map_of ms ''status'' = None)"
  shows "get_status (JObj kvs) = Inr (JStr ''unknown'')"
    and "\<not> is_terminal (JStr ''unknown'')"
    and "poll_loop self timeout poll_interval max_retries url tid start_time retries
           ((d, Responded (JObj kvs)) # evs) w =
         poll_loop self timeout poll_interval max_retries url tid start_time 0 evs
           ((http_call (GET url tid (headers self) 10) d w)\<lparr>clock := clock w + d + of_int poll_interval\<rparr>)"
proof -
  show st: "get_status (JObj kvs) = Inr (JStr ''unknown'')"
    using assms(4) by (auto simp: get_status_def)
  show non: "\<not> is_terminal (JStr ''unknown'')"
    by (simp add: is_terminal_def)
  show "poll_loop self timeout poll_interval max_retries url tid start_time retries
           ((d, Responded (JObj kvs)) # evs) w =
         poll_loop self timeout poll_interval max_retries url tid start_time 0 evs
           ((http_call (GET url tid (headers self) 10) d w)\<lparr>clock := clock w + d + of_int poll_interval\<rparr>)"
    by (rule poll_loop_nonterminal [OF assms(1) st non _ assms(2,3)]) simp
qed

end
